theory Spec2Isabelle
  imports Main "HOL-Library.Sublist"
begin

section \<open>The Go library functions the client uses\<close>

text \<open>
  A Go \<open>string\<close> is a sequence of bytes: it is modelled as \<^typ>\<open>string\<close>, a list of
  8-bit characters. The verbs \<open>%s\<close> and \<open>%d\<close> of \<open>fmt.Sprintf\<close> are written out as
  concatenation at each call.
\<close>

definition apostrophe :: string where
  "apostrophe = [CHR 0x27]"

definition newline :: string where
  "newline = [CHR 0x0A]"

text \<open>\<open>strings.Join(elems, sep)\<close>.\<close>

fun strings_Join :: "string list \<Rightarrow> string \<Rightarrow> string" where
  "strings_Join [] sep = []"
| "strings_Join [x] sep = x"
| "strings_Join (x # y # ys) sep = x @ sep @ strings_Join (y # ys) sep"

text \<open>\<open>fmt.Sprintf("%v", xs)\<close> for a slice of strings: the elements in brackets, one space
  between them.\<close>

definition Sprintf_v :: "string list \<Rightarrow> string" where
  "Sprintf_v xs = ''['' @ strings_Join xs '' '' @ '']''"

text \<open>\<open>strconv.Itoa\<close>, which is also what \<open>%d\<close> prints for an \<open>int\<close>. The identifiers are
  only printed, never computed with, so Go's \<open>int\<close> is read as an integer.\<close>

definition digit :: "nat \<Rightarrow> char" where
  "digit d = char_of (48 + d)"

function digits :: "nat \<Rightarrow> string" where
  "digits n = (if n < 10 then [digit n] else digits (n div 10) @ [digit (n mod 10)])"
  by pat_completeness auto
termination
  by (relation "measure id") auto

declare digits.simps [simp del]

definition Itoa :: "int \<Rightarrow> string" where
  "Itoa i = (if i < 0 then ''-'' @ digits (nat (- i)) else digits (nat i))"

text \<open>\<open>base64.StdEncoding.EncodeToString\<close>: three bytes become four characters of the
  standard alphabet, the last group padded with \<open>=\<close>.\<close>

definition encodeStd :: string where
  "encodeStd = ''ABCDEFGHIJKLMNOPQRSTUVWXYZabcdefghijklmnopqrstuvwxyz0123456789+/''"

fun encode_groups :: "nat list \<Rightarrow> string" where
  "encode_groups [] = []"
| "encode_groups [a] =
     [encodeStd ! (a div 4), encodeStd ! ((a mod 4) * 16), CHR ''='', CHR ''='']"
| "encode_groups [a, b] =
     [encodeStd ! (a div 4), encodeStd ! ((a mod 4) * 16 + b div 16),
      encodeStd ! ((b mod 16) * 4), CHR ''='']"
| "encode_groups (a # b # c # rest) =
     [encodeStd ! (a div 4), encodeStd ! ((a mod 4) * 16 + b div 16),
      encodeStd ! ((b mod 16) * 4 + c div 64), encodeStd ! (c mod 64)] @ encode_groups rest"

definition EncodeToString :: "string \<Rightarrow> string" where
  "EncodeToString src = encode_groups (map of_char src)"

text \<open>A Go \<open>error\<close> is known by its message; \<open>errors.New\<close> makes one.\<close>

datatype error = errors_New string

text \<open>What a call yields: its result, the error it returns, or a panic that unwinds the
  caller.\<close>

datatype 'a result = Ok 'a | Err error | Panic error

section \<open>The client and its constructor\<close>

record ApiClient =
  Host :: string
  Locale :: string
  Secret :: string
  PublicKey :: string

text \<open>The \<open>switch region\<close> of \<open>NewApiClient\<close>: the host and the valid locales of the
  case that matches, \<open>None\<close> for the default case.\<close>

definition region_switch :: "string \<Rightarrow> (string \<times> string list) option" where
  "region_switch region =
    (if region = ''US'' \<or> region = ''United States'' then
       Some (''us.battle.net'', [''en_US'', ''es_MX'', ''pt_BR''])
     else if region = ''EU'' \<or> region = ''Europe'' then
       Some (''eu.battle.net'',
             [''en_GB'', ''es_ES'', ''fr_FR'', ''ru_RU'', ''de_DE'', ''pt_PT'', ''it_IT''])
     else if region = ''KR'' \<or> region = ''Korea'' then
       Some (''kr.battle.net'', [''ko_KR''])
     else if region = ''TW'' \<or> region = ''Taiwan'' then
       Some (''tw.battle.net'', [''zh_TW''])
     else if region = ''ZH'' \<or> region = ''CN'' \<or> region = ''China'' then
       Some (''www.battle.com.cn'', [''zh_CN''])
     else None)"

text \<open>The loop over \<open>validLocales\<close>: the client of the first entry equal to \<open>locale\<close>.\<close>

fun locale_loop :: "string \<Rightarrow> string \<Rightarrow> string list \<Rightarrow> ApiClient option" where
  "locale_loop host locale [] = None"
| "locale_loop host locale (valid # rest) =
     (if valid = locale
      then Some \<lparr>Host = host, Locale = locale, Secret = [], PublicKey = []\<rparr>
      else locale_loop host locale rest)"

definition region_message :: "string \<Rightarrow> string" where
  "region_message region = ''Region '' @ apostrophe @ region @ apostrophe @ '' is not valid''"

definition locale_message :: "string \<Rightarrow> string \<Rightarrow> string" where
  "locale_message locale region =
     ''Locale '' @ apostrophe @ locale @ apostrophe @ '' is not valid for region ''
       @ apostrophe @ region @ apostrophe"

definition index_out_of_range :: error where
  "index_out_of_range = errors_New ''runtime error: index out of range [0] with length 0''"

definition NewApiClient :: "string \<Rightarrow> string \<Rightarrow> ApiClient result" where
  "NewApiClient region locale =
    (case region_switch region of
       None \<Rightarrow> Err (errors_New (region_message region))
     | Some (host, validLocales) \<Rightarrow>
         if locale = [] then
           (case validLocales of
              [] \<Rightarrow> Panic index_out_of_range
            | first # _ \<Rightarrow> Ok \<lparr>Host = host, Locale = first, Secret = [], PublicKey = []\<rparr>)
         else
           (case locale_loop host locale validLocales of
              Some a \<Rightarrow> Ok a
            | None \<Rightarrow> Err (errors_New (locale_message locale region))))"

text \<open>The case labels of the switch, one list for each case.\<close>

definition region_cases :: "string list list" where
  "region_cases =
    [[''US'', ''United States''], [''EU'', ''Europe''], [''KR'', ''Korea''],
     [''TW'', ''Taiwan''], [''ZH'', ''CN'', ''China'']]"

definition supported_regions :: "string list" where
  "supported_regions = concat region_cases"

section \<open>Validation of the character fields\<close>

text \<open>The case labels of the switch in \<open>validateCharacterFields\<close>.\<close>

definition character_fields :: "string list" where
  "character_fields =
    [''achievements'', ''appearance'', ''feed'', ''guild'', ''hunterPets'', ''items'',
     ''mounts'', ''pets'', ''petSlots'', ''professions'', ''progression'', ''pvp'',
     ''quests'', ''reputation'', ''stats'', ''talents'', ''titles'']"

fun fields_loop :: "string list \<Rightarrow> string list \<Rightarrow> string list" where
  "fields_loop [] badFields = badFields"
| "fields_loop (field # rest) badFields =
     fields_loop rest
       (if List.member character_fields field then badFields else badFields @ [field])"

definition fields_message :: "string list \<Rightarrow> string" where
  "fields_message badFields = ''The following fields are not valid: '' @ Sprintf_v badFields"

definition validateCharacterFields :: "string list \<Rightarrow> error option" where
  "validateCharacterFields fields' =
    (let badFields = fields_loop fields' [] in
     if length badFields \<noteq> 0 then Some (errors_New (fields_message badFields)) else None)"

section \<open>Requests\<close>

text \<open>\<open>map[string]string\<close>. A map is a reference: a method that stores into the map it
  was given returns the map as it has left it.\<close>

type_synonym go_map = "string \<rightharpoonup> string"

record URL =
  Scheme :: string
  Host :: string
  Path :: string
  RawQuery :: string

text \<open>\<open>http.Header\<close>: the values of each key, a key at most once. \<open>Add\<close> appends to the
  values of the key. (\<open>Add\<close> writes the key in canonical form; \<open>Authorization\<close>, the one
  key added here, is canonical.)\<close>

type_synonym Header = "(string \<times> string list) list"

fun Header_Add :: "string \<Rightarrow> string \<Rightarrow> Header \<Rightarrow> Header" where
  "Header_Add key val [] = [(key, [val])]"
| "Header_Add key val ((k, vs) # h) =
     (if k = key then (k, vs @ [val]) # h else (k, vs) # Header_Add key val h)"

text \<open>A request: its method, the URL whose \<open>String()\<close> was given to \<open>http.NewRequest\<close>, and
  its header. (The request's own URL is that string parsed again; its path is the path
  that was built.) \<open>Header req key\<close> is \<open>req.Header[key]\<close>.\<close>

record request =
  Method :: string
  Target :: URL
  header :: Header

definition Header :: "request \<Rightarrow> string \<rightharpoonup> string list" where
  "Header req = map_of (header req)"

text \<open>
  How \<open>net/http\<close> sends the header of a request. The transport refuses a request that has
  a header value with a control character other than the tab
  (\<open>httpguts.ValidHeaderFieldValue\<close>), and \<open>client.Do\<close> returns the error. The header
  values of a request that goes out are written with every line break replaced by a space
  (\<open>headerNewlineToSpace\<close>) and then trimmed of leading and trailing blanks, tabs and line
  breaks (\<open>textproto.TrimString\<close>).
\<close>

definition isCTL :: "char \<Rightarrow> bool" where
  "isCTL b = (of_char b < (0x20 :: nat) \<or> of_char b = (0x7F :: nat))"

definition isLWS :: "char \<Rightarrow> bool" where
  "isLWS b = (b = CHR '' '' \<or> b = CHR 0x09)"

definition ValidHeaderFieldValue :: "string \<Rightarrow> bool" where
  "ValidHeaderFieldValue v = list_all (\<lambda>b. \<not> (isCTL b \<and> \<not> isLWS b)) v"

definition headerNewlineToSpace :: "string \<Rightarrow> string" where
  "headerNewlineToSpace v = map (\<lambda>b. if b = CHR 0x0A \<or> b = CHR 0x0D then CHR '' '' else b) v"

definition isASCIISpace :: "char \<Rightarrow> bool" where
  "isASCIISpace b = (b = CHR '' '' \<or> b = CHR 0x09 \<or> b = CHR 0x0A \<or> b = CHR 0x0D)"

definition TrimString :: "string \<Rightarrow> string" where
  "TrimString s = rev (dropWhile isASCIISpace (rev (dropWhile isASCIISpace s)))"

text \<open>The first key of the header that has a value the transport refuses. (The transport
  ranges over the header in no fixed order; the client sets one key at most.) The message
  is that of the transport's error, which \<open>client.Do\<close> returns inside a \<open>*url.Error\<close>.\<close>

fun invalid_value_key :: "Header \<Rightarrow> string option" where
  "invalid_value_key [] = None"
| "invalid_value_key ((k, vv) # h) =
     (if list_all ValidHeaderFieldValue vv then invalid_value_key h else Some k)"

definition invalid_value_message :: "string \<Rightarrow> string" where
  "invalid_value_message k =
     ''net/http: invalid header field value for '' @ [CHR 0x22] @ k @ [CHR 0x22]"

text \<open>The request as it is written to the network.\<close>

definition written :: "request \<Rightarrow> request" where
  "written req =
     req\<lparr>header :=
           map (\<lambda>(k, vv). (k, map (\<lambda>v. TrimString (headerNewlineToSpace v)) vv)) (header req)\<rparr>"

text \<open>A response: what reading its body to the end yields.\<close>

record response =
  Body :: "error + string"

text \<open>The record types the JSON bodies are decoded into. Their declarations are in
  other files of the package; a decoded value is of the type parameter \<open>'v\<close>.\<close>

datatype record_type =
  Achievement | AuctionData | BattlePetAbility | BattlePetSpecies | BattlePet
  | challengeSet | Character

text \<open>
  What the client does not decide itself:
  \<^item> \<open>time_Now n\<close> is \<open>time.Now().String()\<close> at the \<open>n\<close>-th reading of the clock;
  \<^item> \<open>range_order n m\<close> is the order in which the \<open>n\<close>-th \<open>range\<close> loop over a map visits
    the keys of \<open>m\<close> (Go leaves the order open, and it may differ from loop to loop);
  \<^item> \<open>NewRequest_error method u\<close> is the error of \<open>http.NewRequest\<close> when it cannot parse
    \<open>u.String()\<close>;
  \<^item> \<open>client_Do n req\<close> is the answer of the network to \<open>req\<close>, the \<open>n\<close>-th request sent,
    as it was written;
  \<^item> \<open>Unmarshal t blob\<close> is \<open>json.Unmarshal\<close> of \<open>blob\<close> into a fresh record of type \<open>t\<close>;
  \<^item> \<open>Challenges\<close> is the field of that name of a decoded \<open>challengeSet\<close>.
\<close>

record 'v env =
  time_Now :: "nat \<Rightarrow> string"
  range_order :: "nat \<Rightarrow> go_map \<Rightarrow> string list"
  NewRequest_error :: "string \<Rightarrow> URL \<Rightarrow> error option"
  client_Do :: "nat \<Rightarrow> request \<Rightarrow> error + response"
  Unmarshal :: "record_type \<Rightarrow> string \<Rightarrow> error + 'v"
  Challenges :: "'v \<Rightarrow> 'v"

text \<open>
  The state a method of the client runs in: the struct its receiver points to, the
  requests \<open>client.Do\<close> has sent so far (oldest first, each as it was written to the
  network), and how often the clock has been read and a map has been ranged over. Every
  method returns the state it leaves.
\<close>

record state =
  self :: ApiClient
  sent :: "request list"
  clock :: nat
  ranges :: nat

text \<open>A \<open>range\<close> loop over a map visits every entry once.\<close>

definition visits_each_once :: "string list \<Rightarrow> go_map \<Rightarrow> bool" where
  "visits_each_once ks m = (distinct ks \<and> set ks = dom m)"

text \<open>The requests sent between two states.\<close>

definition sent_between :: "state \<Rightarrow> state \<Rightarrow> request list" where
  "sent_between s s' = drop (length (sent s)) (sent s')"

text \<open>The idiom \<open>if err != nil { return nil, err }\<close>: go on with the result of a call that
  returned no error. A panic unwinds the caller as well.\<close>

definition and_then ::
  "'a result \<times> state \<Rightarrow> ('a \<Rightarrow> state \<Rightarrow> 'b result \<times> state) \<Rightarrow> 'b result \<times> state" where
  "and_then rs f =
    (case rs of
       (Ok x, s) \<Rightarrow> f x s
     | (Err err, s) \<Rightarrow> (Err err, s)
     | (Panic err, s) \<Rightarrow> (Panic err, s))"

definition http_NewRequest :: "'v env \<Rightarrow> string \<Rightarrow> URL \<Rightarrow> request result" where
  "http_NewRequest env method u =
    (case NewRequest_error env method u of
       Some err \<Rightarrow> Err err
     | None \<Rightarrow> Ok \<lparr>Method = method, Target = u, header = []\<rparr>)"

text \<open>\<open>client.Do(request)\<close>: a request the transport refuses is not sent; every other request
  goes out as \<open>net/http\<close> writes it, and the network answers.\<close>

definition http_Client_Do :: "'v env \<Rightarrow> request \<Rightarrow> state \<Rightarrow> response result \<times> state" where
  "http_Client_Do env req s =
    (case invalid_value_key (header req) of
       Some k \<Rightarrow> (Err (errors_New (invalid_value_message k)), s)
     | None \<Rightarrow>
         (case client_Do env (length (sent s)) (written req) of
            Inl err \<Rightarrow> (Err err, s\<lparr>sent := sent s @ [written req]\<rparr>)
          | Inr resp \<Rightarrow> (Ok resp, s\<lparr>sent := sent s @ [written req]\<rparr>)))"

definition ioutil_ReadAll :: "error + string \<Rightarrow> string result" where
  "ioutil_ReadAll body = (case body of Inl err \<Rightarrow> Err err | Inr bytes \<Rightarrow> Ok bytes)"

definition json_Unmarshal :: "'v env \<Rightarrow> record_type \<Rightarrow> string \<Rightarrow> 'v result" where
  "json_Unmarshal env t blob =
    (case Unmarshal env t blob of Inl err \<Rightarrow> Err err | Inr v \<Rightarrow> Ok v)"

text \<open>\<open>time.Now().String()\<close>.\<close>

definition Now_String :: "'v env \<Rightarrow> state \<Rightarrow> string \<times> state" where
  "Now_String env s = (time_Now env (clock s), s\<lparr>clock := Suc (clock s)\<rparr>)"

text \<open>\<open>mac.Write(p)\<close> for \<open>mac := hmac.New(sha1.New, key)\<close>: the bytes go into the running
  hash, and the call returns their number and no error (\<open>hash.Hash\<close>: "It never returns an
  error"). The hash itself is read by \<open>mac.Sum\<close> only, which the client never calls.\<close>

definition mac_Write :: "string \<Rightarrow> string \<Rightarrow> nat \<times> error option" where
  "mac_Write key p = (length p, None)"

definition handleError :: "error \<Rightarrow> 'a result" where
  "handleError err = Panic err"

section \<open>The methods of the client\<close>

text \<open>The loop of \<open>url\<close> over the map, the keys in the order \<open>ks\<close>. Only entries of the
  map are visited: a key of \<open>ks\<close> the map does not hold is passed over.\<close>

fun url_loop :: "go_map \<Rightarrow> string list \<Rightarrow> string list \<Rightarrow> string list" where
  "url_loop m [] queryParamList = queryParamList"
| "url_loop m (k # ks) queryParamList =
     (case m k of
        None \<Rightarrow> url_loop m ks queryParamList
      | Some v \<Rightarrow> url_loop m ks (queryParamList @ [k @ ''='' @ v]))"

definition url :: "'v env \<Rightarrow> string \<Rightarrow> go_map \<Rightarrow> state \<Rightarrow> (URL \<times> go_map) \<times> state" where
  "url env path queryParamPairs s =
    (let queryParamPairs' = queryParamPairs(''locale'' \<mapsto> Locale (self s));
         queryParamList =
           url_loop queryParamPairs' (range_order env (ranges s) queryParamPairs') []
     in ((\<lparr>Scheme = ''http'', Host = ApiClient.Host (self s), Path = ''/api/wow/'' @ path,
           RawQuery = strings_Join queryParamList ''&''\<rparr>, queryParamPairs'),
         s\<lparr>ranges := Suc (ranges s)\<rparr>))"

definition authorizationString :: "string \<Rightarrow> state \<Rightarrow> string \<times> state" where
  "authorizationString signature s =
    ('' BNET '' @ PublicKey (self s) @ '':'' @ signature, s)"

definition signature :: "'v env \<Rightarrow> string \<Rightarrow> string \<Rightarrow> state \<Rightarrow> string result \<times> state" where
  "signature env verb path s =
    (case url env path Map.empty s of
       ((u, _), s1) \<Rightarrow>
         (case Now_String env s1 of
            (now, s2) \<Rightarrow>
              (let toBeSigned = strings_Join [verb, now, Path u, []] newline in
               case mac_Write (Secret (self s2)) toBeSigned of
                 (_, Some err) \<Rightarrow> (handleError err, s2)
               | (_, None) \<Rightarrow> (Ok (EncodeToString ''hi''), s2))))"

definition getWithParams ::
  "'v env \<Rightarrow> string \<Rightarrow> go_map \<Rightarrow> state \<Rightarrow> (string result \<times> go_map) \<times> state" where
  "getWithParams env path queryParams s =
    (case url env path queryParams s of
       ((u, queryParams'), s1) \<Rightarrow>
         (case
            and_then (http_NewRequest env ''GET'' u, s1) (\<lambda>request s1.
            and_then
              (if length (Secret (self s1)) > 0 then
                 and_then (signature env ''GET'' path s1) (\<lambda>sig s2.
                   case authorizationString sig s2 of
                     (val, s3) \<Rightarrow>
                       (Ok (request\<lparr>header :=
                              Header_Add ''Authorization'' val (header request)\<rparr>), s3))
               else (Ok request, s1)) (\<lambda>request s4.
            and_then (http_Client_Do env request s4) (\<lambda>response s5.
            and_then (ioutil_ReadAll (Body response), s5) (\<lambda>body s5.
              (Ok body, s5)))))
          of (r, s') \<Rightarrow> ((r, queryParams'), s')))"

definition get :: "'v env \<Rightarrow> string \<Rightarrow> state \<Rightarrow> string result \<times> state" where
  "get env path s =
    (case getWithParams env path Map.empty s of ((r, _), s') \<Rightarrow> (r, s'))"

definition GetAchievement :: "'v env \<Rightarrow> int \<Rightarrow> state \<Rightarrow> 'v result \<times> state" where
  "GetAchievement env id' s =
    and_then (get env (''achievement/'' @ Itoa id') s) (\<lambda>jsonBlob s.
    and_then (json_Unmarshal env Achievement jsonBlob, s) (\<lambda>achieve s.
      (Ok achieve, s)))"

definition GetAuctionData :: "'v env \<Rightarrow> string \<Rightarrow> state \<Rightarrow> 'v result \<times> state" where
  "GetAuctionData env realm s =
    and_then (get env (''auction/data/'' @ realm) s) (\<lambda>jsonBlob s.
    and_then (json_Unmarshal env AuctionData jsonBlob, s) (\<lambda>auctionData s.
      (Ok auctionData, s)))"

definition GetBattlePetAbility :: "'v env \<Rightarrow> int \<Rightarrow> state \<Rightarrow> 'v result \<times> state" where
  "GetBattlePetAbility env id' s =
    and_then (get env (''battlePet/ability/'' @ Itoa id') s) (\<lambda>jsonBlob s.
    and_then (json_Unmarshal env BattlePetAbility jsonBlob, s) (\<lambda>ability s.
      (Ok ability, s)))"

definition GetBattlePetSpecies :: "'v env \<Rightarrow> int \<Rightarrow> state \<Rightarrow> 'v result \<times> state" where
  "GetBattlePetSpecies env id' s =
    and_then (get env (''battlePet/species/'' @ Itoa id') s) (\<lambda>jsonBlob s.
    and_then (json_Unmarshal env BattlePetSpecies jsonBlob, s) (\<lambda>species s.
      (Ok species, s)))"

definition GetBattlePet ::
  "'v env \<Rightarrow> int \<Rightarrow> int \<Rightarrow> int \<Rightarrow> int \<Rightarrow> state \<Rightarrow> 'v result \<times> state" where
  "GetBattlePet env id' level breedId qualityId s =
    (case getWithParams env (''battlePet/stats/'' @ Itoa id')
            [''level'' \<mapsto> Itoa level, ''breedId'' \<mapsto> Itoa breedId,
             ''qualityId'' \<mapsto> Itoa qualityId] s of
       ((r, _), s') \<Rightarrow>
         and_then (r, s') (\<lambda>jsonBlob s.
         and_then (json_Unmarshal env BattlePet jsonBlob, s) (\<lambda>pet s.
           (Ok pet, s))))"

definition GetBattlePetStats ::
  "'v env \<Rightarrow> int \<Rightarrow> int \<Rightarrow> int \<Rightarrow> int \<Rightarrow> state \<Rightarrow> 'v result \<times> state" where
  "GetBattlePetStats env id' level breedId qualityId s =
     GetBattlePet env id' level breedId qualityId s"

text \<open>Will return region challenges if realm is empty string.\<close>

definition GetChallenges :: "'v env \<Rightarrow> string \<Rightarrow> state \<Rightarrow> 'v result \<times> state" where
  "GetChallenges env realm s =
    (let realm = (if realm = [] then ''region'' else realm) in
     and_then (get env (''challenge/'' @ realm) s) (\<lambda>jsonBlob s.
     and_then (json_Unmarshal env challengeSet jsonBlob, s) (\<lambda>challengeSet s.
       (Ok (Challenges env challengeSet), s))))"

definition GetChallenge :: "'v env \<Rightarrow> string \<Rightarrow> state \<Rightarrow> 'v result \<times> state" where
  "GetChallenge env realm s = GetChallenges env realm s"

definition GetCharacterWithFields ::
  "'v env \<Rightarrow> string \<Rightarrow> string \<Rightarrow> string list \<Rightarrow> state \<Rightarrow> 'v result \<times> state" where
  "GetCharacterWithFields env realm characterName fields' s =
    (case validateCharacterFields fields' of
       Some err \<Rightarrow> (Err err, s)
     | None \<Rightarrow>
         (case getWithParams env (''character/'' @ realm @ ''/'' @ characterName)
                 [''fields'' \<mapsto> strings_Join fields' '',''] s of
            ((r, _), s') \<Rightarrow>
              and_then (r, s') (\<lambda>jsonBlob s.
              and_then (json_Unmarshal env Character jsonBlob, s) (\<lambda>char s.
                (Ok char, s)))))"

definition GetCharacter ::
  "'v env \<Rightarrow> string \<Rightarrow> string \<Rightarrow> state \<Rightarrow> 'v result \<times> state" where
  "GetCharacter env realm characterName s =
     GetCharacterWithFields env realm characterName [] s"

section \<open>Calls of the methods\<close>

text \<open>A call of one of the fifteen methods of \<open>*ApiClient\<close>, with its arguments.\<close>

datatype call =
    Call_GetAchievement int
  | Call_GetAuctionData string
  | Call_GetBattlePetAbility int
  | Call_GetBattlePetSpecies int
  | Call_GetBattlePet int int int int
  | Call_GetBattlePetStats int int int int
  | Call_GetChallenges string
  | Call_GetChallenge string
  | Call_GetCharacter string string
  | Call_GetCharacterWithFields string string "string list"
  | Call_get string
  | Call_getWithParams string go_map
  | Call_url string go_map
  | Call_authorizationString string
  | Call_signature string string

text \<open>The state a call leaves.\<close>

fun perform :: "'v env \<Rightarrow> call \<Rightarrow> state \<Rightarrow> state" where
  "perform env (Call_GetAchievement id') s = snd (GetAchievement env id' s)"
| "perform env (Call_GetAuctionData realm) s = snd (GetAuctionData env realm s)"
| "perform env (Call_GetBattlePetAbility id') s = snd (GetBattlePetAbility env id' s)"
| "perform env (Call_GetBattlePetSpecies id') s = snd (GetBattlePetSpecies env id' s)"
| "perform env (Call_GetBattlePet id' level breedId qualityId) s =
     snd (GetBattlePet env id' level breedId qualityId s)"
| "perform env (Call_GetBattlePetStats id' level breedId qualityId) s =
     snd (GetBattlePetStats env id' level breedId qualityId s)"
| "perform env (Call_GetChallenges realm) s = snd (GetChallenges env realm s)"
| "perform env (Call_GetChallenge realm) s = snd (GetChallenge env realm s)"
| "perform env (Call_GetCharacter realm characterName) s =
     snd (GetCharacter env realm characterName s)"
| "perform env (Call_GetCharacterWithFields realm characterName fields') s =
     snd (GetCharacterWithFields env realm characterName fields' s)"
| "perform env (Call_get path) s = snd (get env path s)"
| "perform env (Call_getWithParams path queryParams) s =
     snd (getWithParams env path queryParams s)"
| "perform env (Call_url path queryParamPairs) s = snd (url env path queryParamPairs s)"
| "perform env (Call_authorizationString sig) s = snd (authorizationString sig s)"
| "perform env (Call_signature verb path) s = snd (signature env verb path s)"

text \<open>The state a sequence of calls leaves.\<close>

fun perform_all :: "'v env \<Rightarrow> call list \<Rightarrow> state \<Rightarrow> state" where
  "perform_all env [] s = s"
| "perform_all env (c # cs) s = perform_all env cs (perform env c s)"

text \<open>The calls that fetch a resource: the ten exported methods, \<open>get\<close> and
  \<open>getWithParams\<close>.\<close>

fun fetches :: "call \<Rightarrow> bool" where
  "fetches (Call_url path queryParamPairs) = False"
| "fetches (Call_authorizationString sig) = False"
| "fetches (Call_signature verb path) = False"
| "fetches c = True"

section \<open>An example environment\<close>

text \<open>A network that answers every request with the body \<open>{}\<close>, a decoder that accepts
  every body, and a runtime whose \<open>range\<close> loops visit \<open>fields\<close> before \<open>locale\<close>.\<close>

definition example_env :: "nat env" where
  "example_env =
    \<lparr>time_Now = (\<lambda>n. ''2015-01-01 00:00:00 +0000 UTC''),
     range_order = (\<lambda>n m. [''fields'', ''locale'']),
     NewRequest_error = (\<lambda>method u. None),
     client_Do = (\<lambda>n req. Inr \<lparr>Body = Inr ''{}''\<rparr>),
     Unmarshal = (\<lambda>t blob. Inr 0),
     Challenges = (\<lambda>v. v)\<rparr>"

definition example_state :: "ApiClient \<Rightarrow> state" where
  "example_state a = \<lparr>self = a, sent = [], clock = 0, ranges = 0\<rparr>"

definition example_client :: ApiClient where
  "example_client =
     \<lparr>ApiClient.Host = ''us.battle.net'', Locale = ''en_US'', Secret = [], PublicKey = []\<rparr>"

definition signing_client :: ApiClient where
  "signing_client =
     \<lparr>ApiClient.Host = ''us.battle.net'', Locale = ''en_US'', Secret = ''secret'',
      PublicKey = ''key''\<rparr>"

section \<open>Properties\<close>

lemma EncodeToString_hi: "EncodeToString ''hi'' = ''aGk=''"
  by (simp add: EncodeToString_def encodeStd_def)


subsection \<open>The constructor\<close>

lemma supported_regions_switch:
  "region \<in> set supported_regions \<longleftrightarrow> region_switch region \<noteq> None"
  by (simp add: supported_regions_def region_cases_def region_switch_def)

lemma region_switch_nonempty: "region_switch r = Some (host, vl) \<Longrightarrow> vl \<noteq> []"
  by (auto simp: region_switch_def split: if_splits)

lemma locale_loop_None: "locale_loop host locale vl = None \<longleftrightarrow> locale \<notin> set vl"
  by (induction vl) auto

lemma locale_loop_Some:
  "locale_loop host locale vl = Some a \<longleftrightarrow>
     locale \<in> set vl \<and>
     a = \<lparr>ApiClient.Host = host, Locale = locale, Secret = [], PublicKey = []\<rparr>"
  by (induction vl) auto

lemma region_case_switch:
  assumes "aliases \<in> set region_cases" "r \<in> set aliases"
  shows "region_switch r = region_switch (hd aliases) \<and> region_switch r \<noteq> None"
proof -
  from assms(1) consider
      "aliases = [''US'', ''United States'']"
    | "aliases = [''EU'', ''Europe'']"
    | "aliases = [''KR'', ''Korea'']"
    | "aliases = [''TW'', ''Taiwan'']"
    | "aliases = [''ZH'', ''CN'', ''China'']"
    unfolding region_cases_def by fastforce
  then show ?thesis
  proof cases
    case 1
    with assms(2) have "r = ''US'' \<or> r = ''United States''" by simp
    then show ?thesis
      by (elim disjE) (simp_all add: 1 region_switch_def)
  next
    case 2
    with assms(2) have "r = ''EU'' \<or> r = ''Europe''" by simp
    then show ?thesis
      by (elim disjE) (simp_all add: 2 region_switch_def)
  next
    case 3
    with assms(2) have "r = ''KR'' \<or> r = ''Korea''" by simp
    then show ?thesis
      by (elim disjE) (simp_all add: 3 region_switch_def)
  next
    case 4
    with assms(2) have "r = ''TW'' \<or> r = ''Taiwan''" by simp
    then show ?thesis
      by (elim disjE) (simp_all add: 4 region_switch_def)
  next
    case 5
    with assms(2) have "r = ''ZH'' \<or> r = ''CN'' \<or> r = ''China''" by simp
    then show ?thesis
      by (elim disjE) (simp_all add: 5 region_switch_def)
  qed
qed

text \<open>
  Claim C5. For every region identifier the switch knows, \<open>NewApiClient\<close> with the empty
  locale returns a client (no error, no panic) whose locale is the first entry of the
  region's list of valid locales; for \<open>EU\<close> that is \<open>en_GB\<close>.
\<close>

theorem NewApiClient_empty_locale:
  assumes "region \<in> set supported_regions"
  shows "(\<exists>host first rest.
           region_switch region = Some (host, first # rest) \<and>
           NewApiClient region [] =
             Ok \<lparr>ApiClient.Host = host, Locale = first, Secret = [], PublicKey = []\<rparr>) \<and>
         NewApiClient ''EU'' [] =
             Ok \<lparr>ApiClient.Host = ''eu.battle.net'', Locale = ''en_GB'', Secret = [],
                 PublicKey = []\<rparr>"
proof -
  have "region_switch region \<noteq> None"
    using assms supported_regions_switch by blast
  then obtain host vl where r: "region_switch region = Some (host, vl)"
    by (cases "region_switch region") auto
  then obtain first rest where vl: "vl = first # rest"
    using region_switch_nonempty [OF r] by (cases vl) auto
  have "NewApiClient region [] =
          Ok \<lparr>ApiClient.Host = host, Locale = first, Secret = [], PublicKey = []\<rparr>"
    by (simp add: NewApiClient_def r vl)
  moreover have "NewApiClient ''EU'' [] =
             Ok \<lparr>ApiClient.Host = ''eu.battle.net'', Locale = ''en_GB'', Secret = [],
                 PublicKey = []\<rparr>"
    by (simp add: region_switch_def NewApiClient_def)
  ultimately show ?thesis
    using r vl by blast
qed

theorem NewApiClient_empty_locale_witness:
  "''Korea'' \<in> set supported_regions \<and>
   NewApiClient ''Korea'' [] =
     Ok \<lparr>ApiClient.Host = ''kr.battle.net'', Locale = ''ko_KR'', Secret = [], PublicKey = []\<rparr>"
  using NewApiClient_empty_locale [of "''Korea''"]
  by (simp add: supported_regions_def region_cases_def region_switch_def)

text \<open>
  Claim C6. For a region the switch knows and a locale that is not empty and not in the
  region's list of valid locales, \<open>NewApiClient\<close> returns the error
  \<open>Locale '<locale>' is not valid for region '<region>'\<close>, whose message holds both the
  locale and the region identifier as given.
\<close>

theorem NewApiClient_invalid_locale:
  assumes "region_switch region = Some (host, validLocales)"
    and "locale \<noteq> []" and "locale \<notin> set validLocales"
  shows "NewApiClient region locale = Err (errors_New (locale_message locale region)) \<and>
         sublist locale (locale_message locale region) \<and>
         sublist region (locale_message locale region)"
proof -
  have "locale_loop host locale validLocales = None"
    using assms(3) by (simp add: locale_loop_None)
  then have "NewApiClient region locale = Err (errors_New (locale_message locale region))"
    using assms(1,2) by (simp add: NewApiClient_def)
  moreover have "sublist locale (locale_message locale region)"
    unfolding locale_message_def by (metis sublist_appendI append_assoc)
  moreover have "sublist region (locale_message locale region)"
    unfolding locale_message_def by (metis sublist_appendI append_assoc)
  ultimately show ?thesis by simp
qed

theorem NewApiClient_invalid_locale_witness:
  "region_switch ''TW'' = Some (''tw.battle.net'', [''zh_TW'']) \<and> ''en_US'' \<noteq> [] \<and>
   ''en_US'' \<notin> set [''zh_TW''] \<and>
   NewApiClient ''TW'' ''en_US'' = Err (errors_New (locale_message ''en_US'' ''TW'')) \<and>
   sublist ''en_US'' (locale_message ''en_US'' ''TW'') \<and>
   sublist ''TW'' (locale_message ''en_US'' ''TW'')"
  using NewApiClient_invalid_locale [of "''TW''" "''tw.battle.net''" "[''zh_TW'']" "''en_US''"]
  by (simp add: region_switch_def)

text \<open>
  Claim C7, as stated: two aliases of one region give exactly the same result for every
  locale. This fails where the locale is not valid: the error message quotes the region
  identifier that was passed, so \<open>US\<close> and \<open>United States\<close> return different errors.
\<close>

theorem NewApiClient_aliases_differ:
  "NewApiClient ''US'' ''xx'' \<noteq> NewApiClient ''United States'' ''xx''"
  by (simp add: NewApiClient_def region_switch_def locale_message_def)

text \<open>
  Claim C7, amended. For two labels of one case of the switch and every locale, either both
  calls return the same client (same host, same locale), or both return the invalid-locale
  error, each message quoting the locale and the alias that was passed.
\<close>

theorem NewApiClient_aliases_agree:
  assumes "aliases \<in> set region_cases" "r1 \<in> set aliases" "r2 \<in> set aliases"
  shows "(\<exists>a. NewApiClient r1 locale = Ok a \<and> NewApiClient r2 locale = Ok a) \<or>
         (NewApiClient r1 locale = Err (errors_New (locale_message locale r1)) \<and>
          NewApiClient r2 locale = Err (errors_New (locale_message locale r2)))"
proof -
  have a: "region_switch r1 = region_switch (hd aliases)" and ne: "region_switch r1 \<noteq> None"
    using region_case_switch [OF assms(1,2)] by blast+
  have b: "region_switch r2 = region_switch (hd aliases)"
    using region_case_switch [OF assms(1,3)] by blast
  from ne obtain host vl where r1: "region_switch r1 = Some (host, vl)"
    by (cases "region_switch r1") auto
  then have r2: "region_switch r2 = Some (host, vl)"
    using a b by simp
  have "vl \<noteq> []"
    using r1 by (rule region_switch_nonempty)
  then obtain first rest where vl: "vl = first # rest"
    by (cases vl) auto
  show ?thesis
  proof (cases "locale = []")
    case True
    then show ?thesis
      by (simp add: NewApiClient_def r1 r2 vl)
  next
    case False
    then show ?thesis
      by (cases "locale_loop host locale vl") (simp_all add: NewApiClient_def r1 r2)
  qed
qed

theorem NewApiClient_aliases_agree_witness:
  "[''US'', ''United States''] \<in> set region_cases \<and>
   NewApiClient ''US'' ''es_MX'' = NewApiClient ''United States'' ''es_MX'' \<and>
   NewApiClient ''US'' ''de_DE'' = Err (errors_New (locale_message ''de_DE'' ''US'')) \<and>
   NewApiClient ''United States'' ''de_DE'' =
     Err (errors_New (locale_message ''de_DE'' ''United States''))"
  using NewApiClient_aliases_agree
          [of "[''US'', ''United States'']" "''US''" "''United States''" "''es_MX''"]
    NewApiClient_aliases_agree
          [of "[''US'', ''United States'']" "''US''" "''United States''" "''de_DE''"]
  by (simp add: region_cases_def NewApiClient_def region_switch_def)


subsection \<open>The validator of the character fields\<close>

lemma fields_loop_filter:
  "fields_loop fs badFields = badFields @ filter (\<lambda>f. f \<notin> set character_fields) fs"
  by (induction fs arbitrary: badFields) simp_all

lemma sublist_strings_Join: "x \<in> set xs \<Longrightarrow> sublist x (strings_Join xs sep)"
proof (induction xs sep rule: strings_Join.induct)
  case (1 sep)
  then show ?case by simp
next
  case (2 y sep)
  then show ?case by simp
next
  case (3 y z zs sep)
  show ?case
  proof (cases "x = y")
    case True
    then show ?thesis by simp
  next
    case False
    with 3 have "sublist x (strings_Join (z # zs) sep)" by simp
    then obtain ps ss where "strings_Join (z # zs) sep = ps @ x @ ss"
      by (auto simp: sublist_def)
    then have "strings_Join (y # z # zs) sep = (y @ sep @ ps) @ x @ ss"
      by simp
    then show ?thesis
      by (metis sublist_appendI)
  qed
qed

lemma sublist_fields_message: "f \<in> set badFields \<Longrightarrow> sublist f (fields_message badFields)"
proof -
  assume "f \<in> set badFields"
  then have "sublist f (strings_Join badFields '' '')"
    by (rule sublist_strings_Join)
  then obtain ps ss where "strings_Join badFields '' '' = ps @ f @ ss"
    by (auto simp: sublist_def)
  then have "fields_message badFields =
      (''The following fields are not valid: ['' @ ps) @ f @ (ss @ '']'')"
    by (simp add: fields_message_def Sprintf_v_def)
  then show ?thesis
    by (metis sublist_appendI)
qed

text \<open>
  Claim C3. \<open>validateCharacterFields\<close> returns no error for every list of names that are
  all among the seventeen case labels. For every list with a name that is not, it returns
  the error \<open>The following fields are not valid: [...]\<close>, the brackets holding all the
  names of the list that are not case labels, in their order; so every offending name
  stands in the message.
\<close>

theorem validateCharacterFields_whitelist:
  "(set fs \<subseteq> set character_fields \<longrightarrow> validateCharacterFields fs = None) \<and>
   (\<not> set fs \<subseteq> set character_fields \<longrightarrow>
      validateCharacterFields fs =
        Some (errors_New (fields_message (filter (\<lambda>f. f \<notin> set character_fields) fs))) \<and>
      (\<forall>f \<in> set fs. f \<notin> set character_fields \<longrightarrow>
         sublist f (fields_message (filter (\<lambda>f. f \<notin> set character_fields) fs)))) \<and>
   length character_fields = 17 \<and> distinct character_fields"
proof -
  let ?bad = "filter (\<lambda>f. f \<notin> set character_fields) fs"
  have loop: "fields_loop fs [] = ?bad"
    by (simp add: fields_loop_filter)
  have ok: "set fs \<subseteq> set character_fields \<Longrightarrow> validateCharacterFields fs = None"
  proof -
    assume "set fs \<subseteq> set character_fields"
    then have "?bad = []"
      by (auto simp: filter_empty_conv)
    then show ?thesis
      by (simp add: validateCharacterFields_def loop)
  qed
  have bad: "\<not> set fs \<subseteq> set character_fields \<Longrightarrow>
      validateCharacterFields fs = Some (errors_New (fields_message ?bad))"
  proof -
    assume "\<not> set fs \<subseteq> set character_fields"
    then have "?bad \<noteq> []"
      by (auto simp: filter_empty_conv)
    then show ?thesis
      by (simp add: validateCharacterFields_def loop)
  qed
  have listed: "f \<in> set fs \<Longrightarrow> f \<notin> set character_fields \<Longrightarrow>
      sublist f (fields_message ?bad)" for f
    by (rule sublist_fields_message) simp
  have "length character_fields = 17"
    by (simp add: character_fields_def)
  moreover have "distinct character_fields"
    by (simp add: character_fields_def)
  ultimately show ?thesis
    using ok bad listed by blast
qed

theorem validateCharacterFields_whitelist_witness:
  "validateCharacterFields [''guild'', ''pvp''] = None \<and>
   validateCharacterFields [''guild'', ''bogus'', ''pvp'', ''nope''] =
     Some (errors_New ''The following fields are not valid: [bogus nope]'') \<and>
   sublist ''bogus'' ''The following fields are not valid: [bogus nope]'' \<and>
   sublist ''nope'' ''The following fields are not valid: [bogus nope]''"
  using validateCharacterFields_whitelist [of "[''guild'', ''pvp'']"] validateCharacterFields_whitelist [of "[''guild'', ''bogus'', ''pvp'', ''nope'']"]
  by (simp add: character_fields_def fields_message_def Sprintf_v_def)

subsection \<open>The state the methods leave\<close>

lemma and_then_snd:
  assumes "\<And>x t. snd (f x t) = t"
  shows "snd (and_then rs f) = snd rs"
  using assms by (cases rs; cases "fst rs") (auto simp: and_then_def)

lemma and_then_snd_const [simp]: "snd (and_then (r, s) (\<lambda>x t. (g x, t))) = s"
  by (cases r) (simp_all add: and_then_def)

lemma url_eq:
  "url env path m s =
    ((\<lparr>Scheme = ''http'', Host = ApiClient.Host (self s), Path = ''/api/wow/'' @ path,
       RawQuery = strings_Join
         (url_loop (m(''locale'' \<mapsto> Locale (self s)))
            (range_order env (ranges s) (m(''locale'' \<mapsto> Locale (self s)))) []) ''&''\<rparr>,
      m(''locale'' \<mapsto> Locale (self s))),
     s\<lparr>ranges := Suc (ranges s)\<rparr>)"
  by (simp add: url_def Let_def)

lemma signature_eq:
  "signature env verb path s =
     (Ok ''aGk='', s\<lparr>ranges := Suc (ranges s), clock := Suc (clock s)\<rparr>)"
  by (simp add: signature_def url_eq Now_String_def mac_Write_def EncodeToString_hi)

lemma authorization_valid:
  "ValidHeaderFieldValue ('' BNET '' @ publicKey @ '':aGk='') \<longleftrightarrow>
     ValidHeaderFieldValue publicKey"
  by (simp add: ValidHeaderFieldValue_def isCTL_def isLWS_def)

lemma valid_headerNewlineToSpace:
  "ValidHeaderFieldValue v \<Longrightarrow> headerNewlineToSpace v = v"
  by (induction v) (auto simp: ValidHeaderFieldValue_def headerNewlineToSpace_def isCTL_def
      isLWS_def)

lemma authorization_trimmed:
  "TrimString ('' BNET '' @ publicKey @ '':aGk='') = ''BNET '' @ publicKey @ '':aGk=''"
  by (simp add: TrimString_def isASCIISpace_def)

lemma authorization_written:
  assumes "ValidHeaderFieldValue publicKey"
  shows "TrimString (headerNewlineToSpace ('' BNET '' @ publicKey @ '':aGk='')) =
           ''BNET '' @ publicKey @ '':aGk=''"
proof -
  have "ValidHeaderFieldValue ('' BNET '' @ publicKey @ '':aGk='')"
    using assms by (simp only: authorization_valid)
  then have "headerNewlineToSpace ('' BNET '' @ publicKey @ '':aGk='') =
      '' BNET '' @ publicKey @ '':aGk=''"
    by (rule valid_headerNewlineToSpace)
  then show ?thesis
    by (simp only: authorization_trimmed)
qed

text \<open>The state \<open>getWithParams\<close> leaves: no request when \<open>http.NewRequest\<close> fails or the
  transport refuses the header, else the one request it sends.\<close>

lemma getWithParams_state:
  "snd (getWithParams env path m s) =
    (let u = fst (fst (url env path m s)); s1 = s\<lparr>ranges := Suc (ranges s)\<rparr> in
     case NewRequest_error env ''GET'' u of
       Some err \<Rightarrow> s1
     | None \<Rightarrow>
         if Secret (self s) = [] then
           s1\<lparr>sent := sent s @ [\<lparr>Method = ''GET'', Target = u, header = []\<rparr>]\<rparr>
         else if ValidHeaderFieldValue (PublicKey (self s)) then
           s1\<lparr>ranges := Suc (Suc (ranges s)), clock := Suc (clock s),
              sent := sent s @ [\<lparr>Method = ''GET'', Target = u,
                header = [(''Authorization'',
                  [''BNET '' @ PublicKey (self s) @ '':aGk=''])]\<rparr>]\<rparr>
         else
           s1\<lparr>ranges := Suc (Suc (ranges s)), clock := Suc (clock s)\<rparr>)"
  by (simp add: getWithParams_def url_eq http_NewRequest_def and_then_def signature_eq
      authorizationString_def http_Client_Do_def ioutil_ReadAll_def Let_def written_def
      authorization_valid [simplified] authorization_written [simplified]
      split: option.split sum.split result.split)

lemma get_state: "snd (get env path s) = snd (getWithParams env path Map.empty s)"
  by (simp add: get_def split: prod.split)

lemma GetAchievement_state:
  "snd (GetAchievement env id' s) = snd (get env (''achievement/'' @ Itoa id') s)"
  by (simp add: GetAchievement_def and_then_snd)

lemma GetAuctionData_state:
  "snd (GetAuctionData env realm s) = snd (get env (''auction/data/'' @ realm) s)"
  by (simp add: GetAuctionData_def and_then_snd)

lemma GetBattlePetAbility_state:
  "snd (GetBattlePetAbility env id' s) = snd (get env (''battlePet/ability/'' @ Itoa id') s)"
  by (simp add: GetBattlePetAbility_def and_then_snd)

lemma GetBattlePetSpecies_state:
  "snd (GetBattlePetSpecies env id' s) = snd (get env (''battlePet/species/'' @ Itoa id') s)"
  by (simp add: GetBattlePetSpecies_def and_then_snd)

lemma GetBattlePet_state:
  "snd (GetBattlePet env id' level breedId qualityId s) =
   snd (getWithParams env (''battlePet/stats/'' @ Itoa id')
          [''level'' \<mapsto> Itoa level, ''breedId'' \<mapsto> Itoa breedId,
           ''qualityId'' \<mapsto> Itoa qualityId] s)"
  by (simp add: GetBattlePet_def and_then_snd split: prod.split)

lemma GetChallenges_state:
  "snd (GetChallenges env realm s) =
   snd (get env (''challenge/'' @ (if realm = [] then ''region'' else realm)) s)"
  by (simp add: GetChallenges_def and_then_snd Let_def)

lemma GetCharacterWithFields_state:
  "snd (GetCharacterWithFields env realm characterName fs s) =
    (case validateCharacterFields fs of
       Some err \<Rightarrow> s
     | None \<Rightarrow>
         snd (getWithParams env (''character/'' @ realm @ ''/'' @ characterName)
                [''fields'' \<mapsto> strings_Join fs '',''] s))"
  by (simp add: GetCharacterWithFields_def and_then_snd split: prod.split option.split)

lemmas getter_state =
  get_state GetAchievement_state GetAuctionData_state GetBattlePetAbility_state
  GetBattlePetSpecies_state GetBattlePet_state GetBattlePetStats_def GetChallenges_state
  GetChallenge_def GetCharacter_def GetCharacterWithFields_state

lemma fetches_cases:
  assumes "fetches c"
  shows "perform env c s = s \<or> (\<exists>path m. perform env c s = snd (getWithParams env path m s))"
proof (cases c)
  case (Call_GetCharacter realm characterName)
  then show ?thesis
    by (cases "validateCharacterFields []") (auto simp: getter_state)
next
  case (Call_GetCharacterWithFields realm characterName fs)
  then show ?thesis
    by (cases "validateCharacterFields fs") (auto simp: getter_state)
qed (use assms in \<open>auto simp: getter_state\<close>)

lemma perform_cases:
  "fetches c \<or> (\<exists>path m. perform env c s = snd (url env path m s))
     \<or> (\<exists>sig. perform env c s = snd (authorizationString sig s))
     \<or> (\<exists>verb path. perform env c s = snd (signature env verb path s))"
  by (cases c) auto

lemma getWithParams_self: "self (snd (getWithParams env path m s)) = self s"
  by (simp add: getWithParams_state Let_def split: option.split)

lemma perform_self: "self (perform env c s) = self s"
proof (cases "fetches c")
  case True
  from fetches_cases [OF this, of env s] show ?thesis
    by (auto simp: getWithParams_self)
next
  case False
  with perform_cases [of c env s] show ?thesis
    by (auto simp: url_eq authorizationString_def signature_eq)
qed

lemma perform_all_self: "self (perform_all env cs s) = self s"
  by (induction cs arbitrary: s) (simp_all add: perform_self)

lemma sent_between_append: "sent s' = sent s @ rs \<Longrightarrow> sent_between s s' = rs"
  by (simp add: sent_between_def)

lemma getWithParams_sent:
  "\<exists>rs. sent (snd (getWithParams env path m s)) = sent s @ rs \<and>
     (\<forall>req \<in> set rs. Method req = ''GET'' \<and> Path (Target req) = ''/api/wow/'' @ path \<and>
        Header req =
          (if Secret (self s) = [] then Map.empty
           else [''Authorization'' \<mapsto> [''BNET '' @ PublicKey (self s) @ '':aGk='']])) \<and>
     (NewRequest_error env ''GET'' (fst (fst (url env path m s))) = None \<and>
      (Secret (self s) = [] \<or> ValidHeaderFieldValue (PublicKey (self s))) \<longrightarrow>
        length rs = 1)"
  by (auto simp: getWithParams_state Let_def url_eq Header_def split: option.split)

lemma getWithParams_clock:
  "Secret (self s) = [] \<Longrightarrow> clock (snd (getWithParams env path m s)) = clock s"
  by (simp add: getWithParams_state Let_def split: option.split)

lemma perform_unauthenticated:
  assumes "Secret (self s) = []"
  shows "\<exists>rs. sent (perform env c s) = sent s @ rs \<and> (\<forall>req \<in> set rs. Header req = Map.empty)"
proof (cases "fetches c")
  case True
  from fetches_cases [OF this, of env s] show ?thesis
  proof
    assume "perform env c s = s"
    then show ?thesis by simp
  next
    assume "\<exists>path m. perform env c s = snd (getWithParams env path m s)"
    then obtain path m where p: "perform env c s = snd (getWithParams env path m s)"
      by blast
    from getWithParams_sent [of env path m s] assms obtain rs where
      "sent (snd (getWithParams env path m s)) = sent s @ rs"
      "\<forall>req \<in> set rs. Header req = Map.empty"
      by auto
    then show ?thesis
      using p by auto
  qed
next
  case False
  with perform_cases [of c env s] have "sent (perform env c s) = sent s"
    by (auto simp: url_eq authorizationString_def signature_eq)
  then show ?thesis by simp
qed

lemma perform_all_unauthenticated:
  assumes "Secret (self s) = []"
  shows "\<exists>rs. sent (perform_all env cs s) = sent s @ rs \<and>
              (\<forall>req \<in> set rs. Header req = Map.empty)"
  using assms
proof (induction cs arbitrary: s)
  case Nil
  then show ?case by simp
next
  case (Cons c cs)
  from perform_unauthenticated [OF Cons.prems, of env c] obtain rs1 where
    s1: "sent (perform env c s) = sent s @ rs1" and
    h1: "\<forall>req \<in> set rs1. Header req = Map.empty"
    by blast
  have "Secret (self (perform env c s)) = []"
    using Cons.prems by (simp add: perform_self)
  from Cons.IH [OF this] obtain rs2 where
    s2: "sent (perform_all env cs (perform env c s)) = sent (perform env c s) @ rs2" and
    h2: "\<forall>req \<in> set rs2. Header req = Map.empty"
    by blast
  have "sent (perform_all env (c # cs) s) = sent s @ (rs1 @ rs2)"
    using s1 s2 by simp
  moreover have "\<forall>req \<in> set (rs1 @ rs2). Header req = Map.empty"
    using h1 h2 by auto
  ultimately show ?case by blast
qed

lemma fetches_clock:
  assumes "fetches c" and "Secret (self s) = []"
  shows "clock (perform env c s) = clock s"
  using fetches_cases [OF assms(1), of env s] getWithParams_clock [OF assms(2), of env]
  by auto

lemma fetches_all_clock:
  assumes "list_all fetches cs" and "Secret (self s) = []"
  shows "clock (perform_all env cs s) = clock s"
  using assms
  by (induction cs arbitrary: s) (simp_all add: fetches_clock perform_self)

lemma NewApiClient_no_secret:
  assumes "NewApiClient region locale = Ok a"
  shows "Secret a = [] \<and> PublicKey a = []"
proof (cases "region_switch region")
  case None
  with assms show ?thesis by (simp add: NewApiClient_def)
next
  case (Some hv)
  obtain host vl where hv: "hv = (host, vl)" by (cases hv)
  show ?thesis
  proof (cases "locale = []")
    case True
    with assms Some hv show ?thesis
      by (cases vl) (auto simp: NewApiClient_def)
  next
    case False
    with assms Some hv show ?thesis
      by (cases "locale_loop host locale vl") (auto simp: NewApiClient_def locale_loop_Some)
  qed
qed

subsection \<open>The signature\<close>

text \<open>
  Claim C2. \<open>signature\<close> returns the base64 encoding of the two bytes \<open>hi\<close>, the string
  \<open>aGk=\<close>, whatever the verb, the path, the client (its secret) and the readings of the
  clock are: the bytes written to the HMAC are never read back.
\<close>

theorem signature_constant:
  "fst (signature env1 verb1 path1 s1) = fst (signature env2 verb2 path2 s2) \<and>
   fst (signature env1 verb1 path1 s1) = Ok (EncodeToString ''hi'') \<and>
   EncodeToString ''hi'' = ''aGk=''"
  by (simp add: signature_eq EncodeToString_hi)

theorem signature_constant_witness:
  "fst (signature example_env ''GET'' ''achievement/2144'' (example_state signing_client)) =
   fst (signature (example_env\<lparr>time_Now := (\<lambda>n. ''later'')\<rparr>) ''POST'' ''item/1''
          (example_state example_client)) \<and>
   fst (signature example_env ''GET'' ''achievement/2144'' (example_state signing_client)) =
     Ok ''aGk=''"
  using signature_constant [of example_env "''GET''" "''achievement/2144''" "example_state signing_client"
      "example_env\<lparr>time_Now := (\<lambda>n. ''later'')\<rparr>" "''POST''" "''item/1''"
      "example_state example_client"]
  by auto

subsection \<open>The Authorization header\<close>

text \<open>
  Claim C1. \<open>authorizationString\<close> formats the value with a leading space, and
  \<open>net/http\<close> trims it when it writes the header. So every request \<open>getWithParams\<close> sends
  for a client with a secret carries the Authorization value \<open>BNET <publicKey>:<signature>\<close>
  and nothing else, the signature being what \<open>signature\<close> returned for the call; and no
  request it sends for a client without a secret has an Authorization header. One request
  is sent whenever \<open>http.NewRequest\<close> accepts the URL and the transport the header (a public
  key with a control character is refused, and then nothing goes out).
\<close>

theorem getWithParams_authorization:
  assumes "fst (signature env ''GET'' path (snd (url env path queryParams s))) = Ok sig"
  shows "(Secret (self s) \<noteq> [] \<longrightarrow>
            (\<forall>req \<in> set (sent_between s (snd (getWithParams env path queryParams s))).
               Header req ''Authorization'' =
                 Some [''BNET '' @ PublicKey (self s) @ '':'' @ sig])) \<and>
         (Secret (self s) = [] \<longrightarrow>
            (\<forall>req \<in> set (sent_between s (snd (getWithParams env path queryParams s))).
               Header req ''Authorization'' = None)) \<and>
         (NewRequest_error env ''GET'' (fst (fst (url env path queryParams s))) = None \<and>
          (Secret (self s) = [] \<or> ValidHeaderFieldValue (PublicKey (self s))) \<longrightarrow>
            length (sent_between s (snd (getWithParams env path queryParams s))) = 1)"
proof -
  have sig: "sig = ''aGk=''"
    using assms by (simp add: signature_eq)
  from getWithParams_sent [of env path queryParams s] obtain rs where
    rs: "sent (snd (getWithParams env path queryParams s)) = sent s @ rs" and
    h: "\<forall>req \<in> set rs. Header req =
          (if Secret (self s) = [] then Map.empty
           else [''Authorization'' \<mapsto> [''BNET '' @ PublicKey (self s) @ '':aGk='']])" and
    l: "NewRequest_error env ''GET'' (fst (fst (url env path queryParams s))) = None \<and>
        (Secret (self s) = [] \<or> ValidHeaderFieldValue (PublicKey (self s))) \<longrightarrow>
          length rs = 1"
    by blast
  have b: "sent_between s (snd (getWithParams env path queryParams s)) = rs"
    using rs by (rule sent_between_append)
  show ?thesis
    unfolding b sig using h l by simp
qed

theorem getWithParams_authorization_witness:
  "fst (signature example_env ''GET'' ''achievement/2144''
         (snd (url example_env ''achievement/2144'' Map.empty
                 (example_state signing_client)))) = Ok ''aGk='' \<and>
   Secret (self (example_state signing_client)) \<noteq> [] \<and>
   map (\<lambda>req. Header req ''Authorization'')
     (sent_between (example_state signing_client)
        (snd (getWithParams example_env ''achievement/2144'' Map.empty
                (example_state signing_client)))) = [Some [''BNET key:aGk='']] \<and>
   Secret (self (example_state example_client)) = [] \<and>
   map (\<lambda>req. Header req ''Authorization'')
     (sent_between (example_state example_client)
        (snd (getWithParams example_env ''achievement/2144'' Map.empty
                (example_state example_client)))) = [None]"
  using getWithParams_authorization [of example_env "''achievement/2144''" Map.empty
      "example_state signing_client" "''aGk=''"]
    getWithParams_authorization [of example_env "''achievement/2144''" Map.empty
      "example_state example_client" "''aGk=''"]
  by (simp add: signature_eq getWithParams_state url_eq Let_def sent_between_def Header_def
      example_env_def example_state_def signing_client_def example_client_def
      ValidHeaderFieldValue_def isCTL_def isLWS_def)

text \<open>
  Claim C10. A client returned by \<open>NewApiClient\<close> has an empty secret and an empty public
  key. In every sequence of calls on such a client no request that is sent has an
  Authorization header; and when the calls are fetching calls the clock is never read:
  \<open>signature\<close> reads the clock each time it runs (\<open>signature_eq\<close>), so it has not run.
\<close>

theorem constructed_client_unauthenticated:
  assumes "NewApiClient region locale = Ok a"
  shows "Secret a = [] \<and> PublicKey a = [] \<and>
    (self s = a \<longrightarrow>
       (\<forall>req \<in> set (sent_between s (perform_all env cs s)).
          Header req ''Authorization'' = None) \<and>
       (list_all fetches cs \<longrightarrow> clock (perform_all env cs s) = clock s))"
proof -
  have ns: "Secret a = [] \<and> PublicKey a = []"
    using assms by (rule NewApiClient_no_secret)
  have "(\<forall>req \<in> set (sent_between s (perform_all env cs s)).
          Header req ''Authorization'' = None) \<and>
       (list_all fetches cs \<longrightarrow> clock (perform_all env cs s) = clock s)"
    if "self s = a"
  proof -
    have e: "Secret (self s) = []" using that ns by simp
    from perform_all_unauthenticated [OF e, of env cs] obtain rs where
      rs: "sent (perform_all env cs s) = sent s @ rs" and
      h: "\<forall>req \<in> set rs. Header req = Map.empty"
      by blast
    have "sent_between s (perform_all env cs s) = rs"
      using rs by (rule sent_between_append)
    then show ?thesis using h fetches_all_clock [OF _ e, of cs env] by simp
  qed
  then show ?thesis using ns by blast
qed

theorem constructed_client_unauthenticated_witness:
  "NewApiClient ''US'' ''pt_BR'' =
     Ok \<lparr>ApiClient.Host = ''us.battle.net'', Locale = ''pt_BR'', Secret = [], PublicKey = []\<rparr> \<and>
   list_all fetches [Call_GetCharacterWithFields ''r'' ''n'' [''pvp''], Call_GetChallenges []] \<and>
   clock (perform_all example_env
            [Call_GetCharacterWithFields ''r'' ''n'' [''pvp''], Call_GetChallenges []]
            (example_state \<lparr>ApiClient.Host = ''us.battle.net'', Locale = ''pt_BR'', Secret = [],
               PublicKey = []\<rparr>)) = 0 \<and>
   map (\<lambda>req. Header req ''Authorization'')
     (sent_between
        (example_state \<lparr>ApiClient.Host = ''us.battle.net'', Locale = ''pt_BR'', Secret = [],
               PublicKey = []\<rparr>)
        (perform_all example_env
            [Call_GetCharacterWithFields ''r'' ''n'' [''pvp''], Call_GetChallenges []]
            (example_state \<lparr>ApiClient.Host = ''us.battle.net'', Locale = ''pt_BR'', Secret = [],
               PublicKey = []\<rparr>))) = [None, None]"
  using constructed_client_unauthenticated [of "''US''" "''pt_BR''"
      "\<lparr>ApiClient.Host = ''us.battle.net'', Locale = ''pt_BR'', Secret = [], PublicKey = []\<rparr>"
      "example_state \<lparr>ApiClient.Host = ''us.battle.net'', Locale = ''pt_BR'', Secret = [],
               PublicKey = []\<rparr>"
      example_env
      "[Call_GetCharacterWithFields ''r'' ''n'' [''pvp''], Call_GetChallenges []]"]
  by (simp add: NewApiClient_def region_switch_def example_state_def example_env_def
      getter_state getWithParams_state sent_between_def validateCharacterFields_def
      character_fields_def url_eq Let_def)

subsection \<open>The challenges\<close>

text \<open>
  Claim C4. \<open>GetChallenges\<close> with the empty realm does what it does with the realm
  \<open>region\<close>. The URL it builds has the path \<open>/api/wow/challenge/region\<close> for the empty
  realm and \<open>/api/wow/challenge/r\<close> for a realm \<open>r\<close> that is not empty, and so has every
  request it sends. It sends exactly one request whenever \<open>http.NewRequest\<close> accepts that URL
  and the transport the header.
\<close>

theorem GetChallenges_path:
  "GetChallenges env [] s = GetChallenges env ''region'' s \<and>
   (\<forall>req \<in> set (sent_between s (snd (GetChallenges env [] s))).
      Path (Target req) = ''/api/wow/challenge/region'' \<and>
      suffix ''/challenge/region'' (Path (Target req))) \<and>
   (realm \<noteq> [] \<longrightarrow>
      (\<forall>req \<in> set (sent_between s (snd (GetChallenges env realm s))).
         Path (Target req) = ''/api/wow/challenge/'' @ realm \<and>
         suffix (''/challenge/'' @ realm) (Path (Target req)))) \<and>
   snd (GetChallenges env realm s) =
     snd (getWithParams env (''challenge/'' @ (if realm = [] then ''region'' else realm))
            Map.empty s) \<and>
   Path (fst (fst (url env (''challenge/'' @ (if realm = [] then ''region'' else realm))
                     Map.empty s))) =
     ''/api/wow/challenge/'' @ (if realm = [] then ''region'' else realm) \<and>
   (NewRequest_error env ''GET''
      (fst (fst (url env (''challenge/'' @ (if realm = [] then ''region'' else realm))
                   Map.empty s))) = None \<and>
    (Secret (self s) = [] \<or> ValidHeaderFieldValue (PublicKey (self s))) \<longrightarrow>
      length (sent_between s (snd (GetChallenges env realm s))) = 1)"
proof -
  have state: "snd (GetChallenges env r s) =
     snd (getWithParams env (''challenge/'' @ (if r = [] then ''region'' else r))
            Map.empty s)" for r
    by (simp only: GetChallenges_state get_state)
  have paths: "\<forall>req \<in> set (sent_between s (snd (GetChallenges env r s))).
      Path (Target req) = ''/api/wow/challenge/'' @ (if r = [] then ''region'' else r)" for r
  proof -
    let ?p = "''challenge/'' @ (if r = [] then ''region'' else r)"
    from getWithParams_sent [of env ?p Map.empty s] obtain rs where
      rs: "sent (snd (getWithParams env ?p Map.empty s)) = sent s @ rs" and
      p: "\<forall>req \<in> set rs. Path (Target req) = ''/api/wow/'' @ ?p"
      by blast
    have "sent_between s (snd (GetChallenges env r s)) = rs"
      unfolding state using rs by (rule sent_between_append)
    then show ?thesis using p by simp
  qed
  have one: "length (sent_between s (snd (GetChallenges env realm s))) = 1"
    if "NewRequest_error env ''GET''
          (fst (fst (url env (''challenge/'' @ (if realm = [] then ''region'' else realm))
                       Map.empty s))) = None"
      and "Secret (self s) = [] \<or> ValidHeaderFieldValue (PublicKey (self s))"
  proof -
    let ?p = "''challenge/'' @ (if realm = [] then ''region'' else realm)"
    from getWithParams_sent [of env ?p Map.empty s] that obtain rs where
      rs: "sent (snd (getWithParams env ?p Map.empty s)) = sent s @ rs" and
      l: "length rs = 1"
      by blast
    have "sent_between s (snd (GetChallenges env realm s)) = rs"
      unfolding state using rs by (rule sent_between_append)
    then show ?thesis using l by simp
  qed
  have same: "GetChallenges env [] s = GetChallenges env ''region'' s"
    by (simp add: GetChallenges_def)
  have built: "Path (fst (fst (url env (''challenge/'' @ (if realm = [] then ''region'' else realm))
                     Map.empty s))) =
     ''/api/wow/challenge/'' @ (if realm = [] then ''region'' else realm)"
    by (simp add: url_eq)
  have s1: "suffix ''/challenge/region'' (''/api/wow/challenge/region'')"
    by (simp add: suffix_def)
  have s2: "suffix (''/challenge/'' @ realm) (''/api/wow/challenge/'' @ realm)"
    by (simp add: suffix_def)
  have c2: "\<forall>req \<in> set (sent_between s (snd (GetChallenges env [] s))).
      Path (Target req) = ''/api/wow/challenge/region'' \<and>
      suffix ''/challenge/region'' (Path (Target req))"
    using paths [of "[]"] s1 by simp
  have c3: "realm \<noteq> [] \<longrightarrow>
      (\<forall>req \<in> set (sent_between s (snd (GetChallenges env realm s))).
         Path (Target req) = ''/api/wow/challenge/'' @ realm \<and>
         suffix (''/challenge/'' @ realm) (Path (Target req)))"
    using paths [of realm] s2 by simp
  show ?thesis
    using same c2 c3 state [of realm] built one by blast
qed

theorem GetChallenges_path_witness:
  "NewRequest_error example_env ''GET''
      (fst (fst (url example_env ''challenge/Sargeras'' Map.empty
                   (example_state example_client)))) = None \<and>
   Secret (self (example_state example_client)) = [] \<and>
   map (\<lambda>req. Path (Target req))
     (sent_between (example_state example_client)
        (snd (GetChallenges example_env [] (example_state example_client)))) =
     [''/api/wow/challenge/region''] \<and>
   ''Sargeras'' \<noteq> [] \<and>
   map (\<lambda>req. Path (Target req))
     (sent_between (example_state example_client)
        (snd (GetChallenges example_env ''Sargeras'' (example_state example_client)))) =
     [''/api/wow/challenge/Sargeras'']"
  using GetChallenges_path [of example_env "example_state example_client" "''Sargeras''"]
  by (simp add: example_env_def example_state_def example_client_def sent_between_def
      GetChallenges_state get_state getWithParams_state url_eq Let_def)

subsection \<open>The URL builder\<close>

lemma url_loop_eq:
  "url_loop m ks queryParamList =
     queryParamList @
       concat (map (\<lambda>k. case m k of None \<Rightarrow> [] | Some v \<Rightarrow> [k @ ''='' @ v]) ks)"
  by (induction ks arbitrary: queryParamList) (simp_all split: option.split)

lemma url_loop_visits:
  "k \<in> set ks \<Longrightarrow> m k = Some v \<Longrightarrow> k @ ''='' @ v \<in> set (url_loop m ks [])"
  by (force simp: url_loop_eq)

text \<open>
  Claim C8. \<open>url\<close> stores the client's locale under the key \<open>locale\<close> of the map it was
  given, whatever the map held there, and leaves every other key as it was. When the
  \<open>range\<close> loop visits every entry of the map once, \<open>locale=<Locale>\<close> is one of the pairs
  joined by \<open>&\<close>, so the query contains it. The client is left as it was.
\<close>

theorem url_locale:
  assumes "url env path queryParamPairs s = ((u, queryParamPairs'), s')"
    and "visits_each_once (range_order env (ranges s) queryParamPairs') queryParamPairs'"
  shows "queryParamPairs' ''locale'' = Some (Locale (self s)) \<and>
         (\<forall>k. k \<noteq> ''locale'' \<longrightarrow> queryParamPairs' k = queryParamPairs k) \<and>
         (\<exists>queryParamList.
            RawQuery u = strings_Join queryParamList ''&'' \<and>
            ''locale='' @ Locale (self s) \<in> set queryParamList) \<and>
         sublist (''locale='' @ Locale (self s)) (RawQuery u) \<and>
         self s' = self s"
proof -
  let ?m = "queryParamPairs(''locale'' \<mapsto> Locale (self s))"
  let ?l = "url_loop ?m (range_order env (ranges s) ?m) []"
  have m: "queryParamPairs' = ?m" and u: "RawQuery u = strings_Join ?l ''&''"
    and s': "s' = s\<lparr>ranges := Suc (ranges s)\<rparr>"
    using assms(1) by (auto simp: url_eq)
  have "''locale'' \<in> set (range_order env (ranges s) ?m)"
    using assms(2) by (simp add: visits_each_once_def m)
  then have "''locale'' @ ''='' @ Locale (self s) \<in> set ?l"
    by (rule url_loop_visits) simp
  then have mem: "''locale='' @ Locale (self s) \<in> set ?l"
    by simp
  then have "sublist (''locale='' @ Locale (self s)) (RawQuery u)"
    unfolding u by (rule sublist_strings_Join)
  then show ?thesis
    using m u s' mem by auto
qed

theorem url_locale_witness:
  "visits_each_once [''fields'', ''locale''] [''fields'' \<mapsto> ''pvp'', ''locale'' \<mapsto> ''en_US''] \<and>
   RawQuery (fst (fst (url example_env ''character/r/n''
                        [''fields'' \<mapsto> ''pvp'', ''locale'' \<mapsto> ''xx'']
                        (example_state example_client)))) = ''fields=pvp&locale=en_US'' \<and>
   sublist ''locale=en_US'' ''fields=pvp&locale=en_US'' \<and>
   snd (fst (url example_env ''character/r/n''
               [''fields'' \<mapsto> ''pvp'', ''locale'' \<mapsto> ''xx'']
               (example_state example_client))) ''locale'' = Some ''en_US'' \<and>
   snd (fst (url example_env ''character/r/n''
               [''fields'' \<mapsto> ''pvp'', ''locale'' \<mapsto> ''xx'']
               (example_state example_client))) ''fields'' = Some ''pvp''"
  using url_locale [of example_env "''character/r/n''"
      "[''fields'' \<mapsto> ''pvp'', ''locale'' \<mapsto> ''xx'']" "example_state example_client"
      "fst (fst (url example_env ''character/r/n''
                        [''fields'' \<mapsto> ''pvp'', ''locale'' \<mapsto> ''xx'']
                        (example_state example_client)))"
      "snd (fst (url example_env ''character/r/n''
                        [''fields'' \<mapsto> ''pvp'', ''locale'' \<mapsto> ''xx'']
                        (example_state example_client)))"
      "snd (url example_env ''character/r/n''
                        [''fields'' \<mapsto> ''pvp'', ''locale'' \<mapsto> ''xx'']
                        (example_state example_client))"]
  by (auto simp: example_env_def example_state_def example_client_def url_eq
      visits_each_once_def)

subsection \<open>The locale of a client\<close>

text \<open>
  Claim C9. The locale of a client returned by \<open>NewApiClient\<close> is in the list of valid
  locales of the switch case of its region, and its host is the host of that case. No
  sequence of calls of the methods changes the client, so the locale stays in the list.
\<close>

theorem client_locale_invariant:
  assumes "NewApiClient region locale = Ok a"
  shows "\<exists>host validLocales.
           region_switch region = Some (host, validLocales) \<and>
           ApiClient.Host a = host \<and> Locale a \<in> set validLocales \<and>
           (self s = a \<longrightarrow>
              self (perform_all env cs s) = a \<and>
              Locale (self (perform_all env cs s)) \<in> set validLocales)"
proof (cases "region_switch region")
  case None
  with assms show ?thesis by (simp add: NewApiClient_def)
next
  case (Some hv)
  obtain host vl where hv: "hv = (host, vl)" by (cases hv)
  have "ApiClient.Host a = host \<and> Locale a \<in> set vl"
  proof (cases "locale = []")
    case True
    with assms Some hv show ?thesis
      by (cases vl) (auto simp: NewApiClient_def)
  next
    case False
    with assms Some hv show ?thesis
      by (cases "locale_loop host locale vl") (auto simp: NewApiClient_def locale_loop_Some)
  qed
  then show ?thesis
    using Some hv by (simp add: perform_all_self)
qed

theorem client_locale_invariant_witness:
  "NewApiClient ''Europe'' ''fr_FR'' =
     Ok \<lparr>ApiClient.Host = ''eu.battle.net'', Locale = ''fr_FR'', Secret = [], PublicKey = []\<rparr> \<and>
   self (perform_all example_env
           [Call_GetAchievement 2144, Call_signature ''GET'' ''achievement/2144'',
            Call_url ''item/1'' [''locale'' \<mapsto> ''xx'']]
           (example_state \<lparr>ApiClient.Host = ''eu.battle.net'', Locale = ''fr_FR'',
              Secret = [], PublicKey = []\<rparr>)) =
     \<lparr>ApiClient.Host = ''eu.battle.net'', Locale = ''fr_FR'', Secret = [], PublicKey = []\<rparr> \<and>
   ''fr_FR'' \<in> set [''en_GB'', ''es_ES'', ''fr_FR'', ''ru_RU'', ''de_DE'', ''pt_PT'', ''it_IT'']"
  using client_locale_invariant [of "''Europe''" "''fr_FR''"
      "\<lparr>ApiClient.Host = ''eu.battle.net'', Locale = ''fr_FR'', Secret = [], PublicKey = []\<rparr>"
      "example_state \<lparr>ApiClient.Host = ''eu.battle.net'', Locale = ''fr_FR'',
              Secret = [], PublicKey = []\<rparr>"
      example_env
      "[Call_GetAchievement 2144, Call_signature ''GET'' ''achievement/2144'',
            Call_url ''item/1'' [''locale'' \<mapsto> ''xx'']]"]
  by (simp add: NewApiClient_def region_switch_def example_state_def)

end
